theory Spec2Isabelle
  imports Main
begin

section \<open>The function-documentation generator of diecast (cli/funcdoc.go)\<close>

text \<open>
  The program reads the comment groups of one Go source file, recognises the lines of
  the form \<^verbatim>\<open>// fn Name: docstring\<close>, looks the name up in a registry of
  values, renders the signature of the registered function by reflection, and prints
  one block of text per record. Strings are byte lists, as in Go.
\<close>

subsection \<open>Go types and values as \<^verbatim>\<open>reflect\<close> shows them\<close>

text \<open>
  \<^verbatim>\<open>reflect.Type.Name()\<close> returns the name of a defined type (the predeclared
  \<^verbatim>\<open>int\<close>, \<^verbatim>\<open>string\<close>, \<^verbatim>\<open>error\<close>, ... and the types
  declared with \<^verbatim>\<open>type T ...\<close>) and the empty string for every type literal:
  \<^verbatim>\<open>interface{}\<close>, \<^verbatim>\<open>[]T\<close>, \<^verbatim>\<open>*T\<close>,
  \<^verbatim>\<open>map[K]V\<close>.
\<close>

datatype gotype =
    Defined string
  | EmptyInterface
  | SliceOf gotype
  | PointerTo gotype
  | MapOf gotype gotype

fun Type_Name :: "gotype \<Rightarrow> string" where
  "Type_Name (Defined n) = n"
| "Type_Name EmptyInterface = []"
| "Type_Name (SliceOf t) = []"
| "Type_Name (PointerTo t) = []"
| "Type_Name (MapOf k v) = []"

text \<open>The type of a function value: \<^verbatim>\<open>NumIn/In\<close>, \<^verbatim>\<open>IsVariadic\<close>,
  \<^verbatim>\<open>NumOut/Out\<close>.\<close>

record functype =
  In :: "gotype list"
  IsVariadic :: bool
  Out :: "gotype list"

definition NumIn :: "functype \<Rightarrow> nat" where
  "NumIn fnT = length (In fnT)"

definition NumOut :: "functype \<Rightarrow> nat" where
  "NumOut fnT = length (Out fnT)"

text \<open>A registry value (\<^verbatim>\<open>interface{}\<close>): a function, a pointer to a value, or
  a value of another kind.\<close>

datatype govalue =
    FuncValue functype
  | PtrValue govalue
  | OtherValue gotype

text \<open>\<^verbatim>\<open>typeutil.ResolveValue\<close> follows pointers to the value they point to.\<close>

fun ResolveValue :: "govalue \<Rightarrow> govalue" where
  "ResolveValue (PtrValue v) = ResolveValue v"
| "ResolveValue v = v"

text \<open>\<^verbatim>\<open>typeutil.IsKind(fn, reflect.Func)\<close>.\<close>

fun IsKind_Func :: "govalue \<Rightarrow> bool" where
  "IsKind_Func (FuncValue fnT) = True"
| "IsKind_Func v = False"

type_synonym FuncMap = "string \<rightharpoonup> govalue"

datatype error = Errorf string

fun Error :: "error \<Rightarrow> string" where
  "Error (Errorf m) = m"

subsection \<open>Strings\<close>

definition newline :: string where
  "newline = [CHR 0x0A]"

text \<open>\<^verbatim>\<open>strings.Join\<close>.\<close>

fun Join :: "string list \<Rightarrow> string \<Rightarrow> string" where
  "Join [] sep = []"
| "Join [x] sep = x"
| "Join (x # y # ys) sep = x @ sep @ Join (y # ys) sep"

text \<open>\<^verbatim>\<open>strings.Split\<close> with a separator of one byte: the pieces between the
  occurrences of the separator, one more than there are occurrences.\<close>

fun Split :: "string \<Rightarrow> char \<Rightarrow> string list" where
  "Split [] sep = [[]]"
| "Split (c # cs) sep =
     (if c = sep then [] # Split cs sep
      else (case Split cs sep of [] \<Rightarrow> [[c]] | p # ps \<Rightarrow> (c # p) # ps))"

text \<open>\<^verbatim>\<open>strings.TrimPrefix\<close>.\<close>

fun stripPrefix :: "string \<Rightarrow> string \<Rightarrow> string option" where
  "stripPrefix [] s = Some s"
| "stripPrefix (p # ps) [] = None"
| "stripPrefix (p # ps) (c # cs) = (if p = c then stripPrefix ps cs else None)"

definition TrimPrefix :: "string \<Rightarrow> string \<Rightarrow> string" where
  "TrimPrefix s prefx = (case stripPrefix prefx s of Some r \<Rightarrow> r | None \<Rightarrow> s)"

text \<open>\<^verbatim>\<open>strings.TrimSpace\<close> removes the leading and trailing white space that
  \<^verbatim>\<open>unicode.IsSpace\<close> accepts: the ASCII bytes 09 to 0D and 20, and in UTF-8
  the code points U+0085, U+00A0, U+1680, U+2000 to U+200A, U+2028, U+2029, U+202F,
  U+205F and U+3000.\<close>

definition asciiSpace :: "char \<Rightarrow> bool" where
  "asciiSpace c = (c = CHR 0x09 \<or> c = CHR 0x0A \<or> c = CHR 0x0B \<or> c = CHR 0x0C
     \<or> c = CHR 0x0D \<or> c = CHR 0x20)"

definition unicodeSpaces :: "string list" where
  "unicodeSpaces =
    [[CHR 0xC2, CHR 0x85], [CHR 0xC2, CHR 0xA0], [CHR 0xE1, CHR 0x9A, CHR 0x80],
     [CHR 0xE2, CHR 0x80, CHR 0x80], [CHR 0xE2, CHR 0x80, CHR 0x81],
     [CHR 0xE2, CHR 0x80, CHR 0x82], [CHR 0xE2, CHR 0x80, CHR 0x83],
     [CHR 0xE2, CHR 0x80, CHR 0x84], [CHR 0xE2, CHR 0x80, CHR 0x85],
     [CHR 0xE2, CHR 0x80, CHR 0x86], [CHR 0xE2, CHR 0x80, CHR 0x87],
     [CHR 0xE2, CHR 0x80, CHR 0x88], [CHR 0xE2, CHR 0x80, CHR 0x89],
     [CHR 0xE2, CHR 0x80, CHR 0x8A], [CHR 0xE2, CHR 0x80, CHR 0xA8],
     [CHR 0xE2, CHR 0x80, CHR 0xA9], [CHR 0xE2, CHR 0x80, CHR 0xAF],
     [CHR 0xE2, CHR 0x81, CHR 0x9F], [CHR 0xE3, CHR 0x80, CHR 0x80]]"

text \<open>The number of bytes of the white-space code point a string starts with,
  0 when it starts with none.\<close>

fun spaceWidth :: "string list \<Rightarrow> string \<Rightarrow> nat" where
  "spaceWidth [] s = 0"
| "spaceWidth (u # us) s =
     (case stripPrefix u s of Some r \<Rightarrow> length u | None \<Rightarrow> spaceWidth us s)"

definition leadingSpace :: "string \<Rightarrow> nat" where
  "leadingSpace s =
     (case s of [] \<Rightarrow> 0
      | c # cs \<Rightarrow> if asciiSpace c then 1 else spaceWidth unicodeSpaces s)"

definition trailingSpace :: "string \<Rightarrow> nat" where
  "trailingSpace s =
     (case rev s of [] \<Rightarrow> 0
      | c # cs \<Rightarrow> if asciiSpace c then 1 else spaceWidth (map rev unicodeSpaces) (rev s))"

function TrimLeft :: "string \<Rightarrow> string" where
  "TrimLeft s = (if leadingSpace s = 0 then s else TrimLeft (drop (leadingSpace s) s))"
  by pat_completeness auto
termination
  by (relation "measure length") (auto simp: leadingSpace_def split: list.splits)

function TrimRight :: "string \<Rightarrow> string" where
  "TrimRight s =
     (if trailingSpace s = 0 then s else TrimRight (take (length s - trailingSpace s) s))"
  by pat_completeness auto
termination
  by (relation "measure length") (auto simp: trailingSpace_def split: list.splits)

definition TrimSpace :: "string \<Rightarrow> string" where
  "TrimSpace s = TrimRight (TrimLeft s)"

subsection \<open>The two regular expressions\<close>

text \<open>
  \<^verbatim>\<open>rxutil.Match(text, pattern)\<close> searches \<^verbatim>\<open>text\<close> for the leftmost match
  of the regular expression, with the leftmost-first (backtracking) choice of Go's
  \<^verbatim>\<open>regexp\<close>, and returns nil when there is none. The classes of the two
  patterns: \<^verbatim>\<open>\s\<close> is tab, line feed, form feed, carriage return and space;
  \<^verbatim>\<open>\w\<close> is a letter, a digit or the underscore; \<^verbatim>\<open>.\<close> is any byte
  but the line feed; \<^verbatim>\<open>[^:]\<close> is any byte but the colon.
\<close>

definition rxSpace :: "char \<Rightarrow> bool" where
  "rxSpace c = (c = CHR 0x09 \<or> c = CHR 0x0A \<or> c = CHR 0x0C \<or> c = CHR 0x0D \<or> c = CHR 0x20)"

definition rxWord :: "char \<Rightarrow> bool" where
  "rxWord c =
     (let n = (of_char c :: nat)
      in (48 \<le> n \<and> n \<le> 57) \<or> (65 \<le> n \<and> n \<le> 90) \<or> (97 \<le> n \<and> n \<le> 122) \<or> n = 95)"

text \<open>
  \<^verbatim>\<open>//\s*fn\s*(?P<func>[^:]+):\s*(?P<docstring>.*)\<close> tried at the start of a
  string. After \<^verbatim>\<open>//\<close> the first \<^verbatim>\<open>\s*\<close> takes the whole run of white
  space, since \<^verbatim>\<open>fn\<close> must follow. The second \<^verbatim>\<open>\s*\<close> takes the whole
  run too, and \<^verbatim>\<open>[^:]+\<close> everything up to the first colon; only when the colon
  follows the white space at once does the engine backtrack, giving the last byte of
  white space to the name. After the colon \<^verbatim>\<open>\s*\<close> takes the whole run and
  \<^verbatim>\<open>.*\<close> the rest of the line. The result is the pair of the groups
  \<^verbatim>\<open>func\<close> and \<^verbatim>\<open>docstring\<close>.
\<close>

definition matchFnDocStringAt :: "string \<Rightarrow> (string \<times> string) option" where
  "matchFnDocStringAt s =
     (case stripPrefix ''//'' s of None \<Rightarrow> None
      | Some r1 \<Rightarrow>
     (case stripPrefix ''fn'' (dropWhile rxSpace r1) of None \<Rightarrow> None
      | Some r2 \<Rightarrow>
        let w = takeWhile rxSpace r2;
            r3 = dropWhile rxSpace r2;
            func = (if takeWhile (\<lambda>c. c \<noteq> CHR '':'') r3 \<noteq> [] then takeWhile (\<lambda>c. c \<noteq> CHR '':'') r3
                    else if w \<noteq> [] then [last w] else [])
        in if func = [] then None
           else (case dropWhile (\<lambda>c. c \<noteq> CHR '':'') r3 of [] \<Rightarrow> None
                 | c # r4 \<Rightarrow> Some (func, takeWhile (\<lambda>c. c \<noteq> CHR 0x0A) (dropWhile rxSpace r4)))))"

fun Match_rxFnDocString :: "string \<Rightarrow> (string \<times> string) option" where
  "Match_rxFnDocString [] = matchFnDocStringAt []"
| "Match_rxFnDocString (c # cs) =
     (case matchFnDocStringAt (c # cs) of
        Some m \<Rightarrow> Some m
      | None \<Rightarrow> Match_rxFnDocString cs)"

text \<open>
  One round of \<^verbatim>\<open>\*(\w+)\*\<close> at the start of a string: the captured word and the
  rest of the string. \<^verbatim>\<open>\w+\<close> takes the whole run of word bytes, since the
  star that must follow is not one.
\<close>

definition matchArgAt :: "string \<Rightarrow> (string \<times> string) option" where
  "matchArgAt s =
     (case s of [] \<Rightarrow> None
      | c # r \<Rightarrow>
        if c = CHR ''*'' then
          (if takeWhile rxWord r = [] then None
           else (case dropWhile rxWord r of [] \<Rightarrow> None
                 | d # r' \<Rightarrow> if d = CHR ''*'' then Some (takeWhile rxWord r, r') else None))
        else None)"

lemma matchArgAt_shorter: "matchArgAt s = Some (w, r) \<Longrightarrow> length r < length s"
proof -
  assume m: "matchArgAt s = Some (w, r)"
  then obtain c t where s: "s = c # t" by (cases s) (auto simp: matchArgAt_def)
  from m s obtain d where "dropWhile rxWord t = d # r"
    by (auto simp: matchArgAt_def split: if_splits list.splits)
  then have "length r < length (dropWhile rxWord t)" by simp
  also have "\<dots> \<le> length t" by (rule length_dropWhile_le)
  finally show ?thesis using s by simp
qed

text \<open>
  \<^verbatim>\<open>(?:\*(\w+)\*)+\<close>: the rounds are repeated as long as one matches, and the
  group keeps the word of the last round.
\<close>

function matchArgsMore :: "string \<Rightarrow> string \<Rightarrow> string \<times> string" where
  "matchArgsMore cap s =
     (case matchArgAt s of None \<Rightarrow> (cap, s) | Some (cap', s') \<Rightarrow> matchArgsMore cap' s')"
  by pat_completeness auto
termination
  by (relation "measure (\<lambda>(cap, s). length s)") (auto dest: matchArgAt_shorter)

lemma matchArgsMore_le: "matchArgsMore cap s = (cap', s') \<Longrightarrow> length s' \<le> length s"
proof (induction cap s arbitrary: cap' s' rule: matchArgsMore.induct)
  case (1 cap s)
  show ?case
  proof (cases "matchArgAt s")
    case None
    with "1.prems" show ?thesis by simp
  next
    case (Some p)
    obtain c t where p: "p = (c, t)" by (cases p)
    from Some p "1.prems" have "matchArgsMore c t = (cap', s')" by simp
    from "1.IH"[OF Some p[symmetric] this] have "length s' \<le> length t" .
    moreover from Some p have "length t < length s" by (auto dest: matchArgAt_shorter)
    ultimately show ?thesis by simp
  qed
qed

text \<open>
  \<^verbatim>\<open>AllCaptures()\<close>: the group of every match, the matches found from left to
  right, each search starting where the match before it ended.
\<close>

function AllCaptures :: "string \<Rightarrow> string list" where
  "AllCaptures [] = []"
| "AllCaptures (c # cs) =
     (case matchArgAt (c # cs) of
        None \<Rightarrow> AllCaptures cs
      | Some (cap, r) \<Rightarrow> fst (matchArgsMore cap r) # AllCaptures (snd (matchArgsMore cap r)))"
  by pat_completeness auto
termination
proof (relation "measure length")
  show "wf (measure length)" by simp
next
  fix c cs
  show "(cs, c # cs) \<in> measure length" by simp
next
  fix c cs x2 x y
  assume "matchArgAt (c # cs) = Some x2" and "(x, y) = x2"
  then have a: "length y < length (c # cs)" by (auto dest: matchArgAt_shorter)
  have "length (snd (matchArgsMore x y)) \<le> length y"
    by (rule matchArgsMore_le[of x y "fst (matchArgsMore x y)"]) simp
  with a show "(snd (matchArgsMore x y), c # cs) \<in> measure length" by simp
qed

subsection \<open>Rendering a signature: \<^verbatim>\<open>getFnSignature\<close>\<close>

text \<open>The type name of a parameter or of a result, after the \<^verbatim>\<open>switch\<close>.\<close>

definition typename :: "gotype \<Rightarrow> string" where
  "typename t = (if Type_Name t = ''interface{}'' then ''any'' else Type_Name t)"

text \<open>The entry appended for the parameter \<^verbatim>\<open>in\<close>.\<close>

definition argEntry :: "functype \<Rightarrow> string list \<Rightarrow> nat \<Rightarrow> string" where
  "argEntry fnT inArgNames i =
     (let tn = typename (In fnT ! i);
          tn = (if IsVariadic fnT \<and> i + 1 = NumIn fnT then ''...'' @ tn else tn)
      in if i < length inArgNames then (inArgNames ! i) @ '' '' @ tn else tn)"

function argsLoop :: "functype \<Rightarrow> string list \<Rightarrow> nat \<Rightarrow> string list \<Rightarrow> string list" where
  "argsLoop fnT inArgNames i args =
     (if i < NumIn fnT then argsLoop fnT inArgNames (i + 1) (args @ [argEntry fnT inArgNames i])
      else args)"
  by pat_completeness auto
termination
  by (relation "measure (\<lambda>(fnT, inArgNames, i, args). NumIn fnT - i)") auto

function outsLoop :: "functype \<Rightarrow> nat \<Rightarrow> string list \<Rightarrow> string list" where
  "outsLoop fnT oi outs =
     (if oi < NumOut fnT then outsLoop fnT (oi + 1) (outs @ [typename (Out fnT ! oi)])
      else outs)"
  by pat_completeness auto
termination
  by (relation "measure (\<lambda>(fnT, oi, outs). NumOut fnT - oi)") auto

definition getFnSignature :: "govalue \<Rightarrow> string list \<Rightarrow> error + (string \<times> string)" where
  "getFnSignature fn inArgNames =
     (case ResolveValue fn of
        FuncValue fnT \<Rightarrow>
          Inr (Join (argsLoop fnT inArgNames 0 []) '', '', Join (outsLoop fnT 0 []) '', '')
      | _ \<Rightarrow> Inl (Errorf ''must provide a function to get a signature''))"

subsection \<open>Collecting the records: \<^verbatim>\<open>GenerateFunctionDocs\<close>\<close>

record functionDoc =
  Name :: string
  DocString :: string
  Signature :: string
  Returns :: string

definition newDoc :: functionDoc where
  "newDoc = \<lparr>Name = [], DocString = [], Signature = [], Returns = []\<rparr>"

text \<open>
  The loop over the comments of one group, with the record under construction and the
  standard output so far. It returns \<open>None\<close> for the record when the loop was left by
  \<^verbatim>\<open>continue NextComment\<close>, and the record when it ran to its end.
\<close>

fun commentLoop ::
  "FuncMap \<Rightarrow> string list \<Rightarrow> functionDoc \<Rightarrow> string \<Rightarrow> functionDoc option \<times> string" where
  "commentLoop funcs [] doc out = (Some doc, out)"
| "commentLoop funcs (text # rest) doc out =
     (case Match_rxFnDocString text of
        Some (fnname, docstring) \<Rightarrow>
          (case funcs fnname of
             Some fn \<Rightarrow>
               if docstring \<noteq> [] then
                 (case getFnSignature fn (AllCaptures docstring) of
                    Inr (signature, outputs) \<Rightarrow>
                      commentLoop funcs rest
                        (doc\<lparr>Name := fnname, DocString := docstring,
                             Signature := signature, Returns := outputs\<rparr>) out
                  | Inl err \<Rightarrow>
                      (None, out @ ''signature failed: '' @ Error err @ newline))
               else commentLoop funcs rest doc out
           | None \<Rightarrow> commentLoop funcs rest doc out)
      | None \<Rightarrow>
          if Name doc \<noteq> [] then
            commentLoop funcs rest
              (doc\<lparr>DocString := DocString doc @ '' '' @ TrimSpace (TrimPrefix text ''//'')\<rparr>) out
          else (None, out))"

text \<open>The loop over the comment groups of the file.\<close>

fun groupLoop ::
  "FuncMap \<Rightarrow> string list list \<Rightarrow> functionDoc list \<Rightarrow> string \<Rightarrow> functionDoc list \<times> string" where
  "groupLoop funcs [] docs out = (docs, out)"
| "groupLoop funcs (grp # groups) docs out =
     (case commentLoop funcs grp newDoc out of
        (Some doc, out') \<Rightarrow> groupLoop funcs groups (docs @ [doc]) out'
      | (None, out') \<Rightarrow> groupLoop funcs groups docs out')"

text \<open>
  \<^verbatim>\<open>parser.ParseFile\<close> is given as its result: the comment groups of the file,
  each the list of the texts of its comments, and the error, if any. The result of
  \<^verbatim>\<open>GenerateFunctionDocs\<close> is the slice of records (\<open>None\<close> for nil), the
  error (\<open>None\<close> for nil) and the standard output.
\<close>

type_synonym parsed = "string list list \<times> error option"

definition GenerateFunctionDocs ::
  "FuncMap \<Rightarrow> parsed \<Rightarrow> string \<Rightarrow> functionDoc list option \<times> error option \<times> string" where
  "GenerateFunctionDocs funcs source out =
     (case snd source of
        None \<Rightarrow> (case groupLoop funcs (fst source) [] out of (docs, out') \<Rightarrow> (Some docs, None, out'))
      | Some err \<Rightarrow> (None, Some err, out))"

subsection \<open>Printing the records: \<^verbatim>\<open>main\<close>\<close>

definition returnSignature :: "string \<Rightarrow> string" where
  "returnSignature returns =
     (if returns \<noteq> [] then
        (if length (Split returns CHR '','') > 1 then '' ('' @ returns @ '')''
         else '' '' @ returns)
      else returns)"

definition printDoc :: "functionDoc \<Rightarrow> string" where
  "printDoc doc =
     Name doc @ ''('' @ Signature doc @ '')'' @ returnSignature (Returns doc) @ newline
     @ DocString doc @ newline @ newline"

fun printLoop :: "functionDoc list \<Rightarrow> string \<Rightarrow> string" where
  "printLoop [] out = out"
| "printLoop (doc # docs) out = printLoop docs (out @ printDoc doc)"

text \<open>\<^verbatim>\<open>main\<close>, with the standard functions and the parsed
  \<^verbatim>\<open>functions.go\<close> as parameters; the result is the standard output.\<close>

definition main :: "FuncMap \<Rightarrow> parsed \<Rightarrow> string" where
  "main funcs source =
     (case GenerateFunctionDocs funcs source [] of
        (Some docs, None, out) \<Rightarrow> printLoop docs out
      | (_, Some err, out) \<Rightarrow> out @ ''err: '' @ Error err @ newline
      | (None, None, out) \<Rightarrow> out)"

subsection \<open>Notions used to state the properties\<close>

text \<open>The records that one comment group contributes to the result: the record of the
  group when the loop over its comments runs to its end, none when the group is left by
  \<^verbatim>\<open>continue NextComment\<close>.\<close>

definition recordsOfGroup :: "FuncMap \<Rightarrow> string list \<Rightarrow> functionDoc list" where
  "recordsOfGroup funcs grp =
     (case fst (commentLoop funcs grp newDoc []) of Some doc \<Rightarrow> [doc] | None \<Rightarrow> [])"


section \<open>Properties\<close>

declare argsLoop.simps [simp del] outsLoop.simps [simp del] TrimLeft.simps [simp del]
  TrimRight.simps [simp del] matchArgsMore.simps [simp del]

text \<open>The equations that evaluate the program on a concrete input.\<close>

lemmas funcdoc_eval =
  main_def GenerateFunctionDocs_def newDoc_def matchFnDocStringAt_def rxSpace_def
  matchArgAt_def rxWord_def getFnSignature_def NumIn_def NumOut_def argEntry_def
  typename_def printDoc_def returnSignature_def newline_def TrimSpace_def TrimPrefix_def
  leadingSpace_def trailingSpace_def asciiSpace_def unicodeSpaces_def
  argsLoop.simps outsLoop.simps TrimLeft.simps TrimRight.simps matchArgsMore.simps

subsection \<open>The annotation pattern\<close>

lemma stripPrefix_Some: "stripPrefix p s = Some r \<Longrightarrow> s = p @ r"
  by (induction p s rule: stripPrefix.induct) (auto split: if_splits)

text \<open>
  What \<open>matchFnDocStringAt\<close> accepts is a match of the pattern: the string is
  \<^verbatim>\<open>//\<close>, white space, \<^verbatim>\<open>fn\<close>, white space, a name that is not empty and
  holds no colon, a colon, white space, and the docstring up to the end of the line.
\<close>

lemma matchFnDocStringAt_sound:
  assumes "matchFnDocStringAt s = Some (func, doc)"
  shows "\<exists>ws1 ws2 ws3 rest.
           s = ''//'' @ ws1 @ ''fn'' @ ws2 @ func @ '':'' @ ws3 @ doc @ rest
           \<and> (\<forall>c\<in>set (ws1 @ ws2 @ ws3). rxSpace c)
           \<and> func \<noteq> [] \<and> CHR '':'' \<notin> set func \<and> CHR 0x0A \<notin> set doc
           \<and> (rest = [] \<or> hd rest = CHR 0x0A)"
proof -
  from assms obtain r1 where r1: "stripPrefix ''//'' s = Some r1"
    by (auto simp: matchFnDocStringAt_def split: option.splits)
  with assms obtain r2 where r2: "stripPrefix ''fn'' (dropWhile rxSpace r1) = Some r2"
    by (auto simp: matchFnDocStringAt_def split: option.splits)
  define w where "w = takeWhile rxSpace r2"
  define r3 where "r3 = dropWhile rxSpace r2"
  define nm where "nm = takeWhile (\<lambda>c. c \<noteq> CHR '':'') r3"
  define tl3 where "tl3 = dropWhile (\<lambda>c. c \<noteq> CHR '':'') r3"
  have s1: "s = ''//'' @ takeWhile rxSpace r1 @ ''fn'' @ r2"
    using stripPrefix_Some[OF r1] stripPrefix_Some[OF r2]
    by (metis takeWhile_dropWhile_id)
  have r2eq: "r2 = w @ r3" by (simp add: w_def r3_def)
  have r3eq: "r3 = nm @ tl3" by (simp add: nm_def tl3_def)
  have wsp: "\<forall>c\<in>set w. rxSpace c" unfolding w_def by (auto dest: set_takeWhileD)
  have ws1: "\<forall>c\<in>set (takeWhile rxSpace r1). rxSpace c" by (auto dest: set_takeWhileD)
  have nmc: "CHR '':'' \<notin> set nm" unfolding nm_def by (auto dest: set_takeWhileD)
  from assms r1 r2 have f: "func = (if nm \<noteq> [] then nm else if w \<noteq> [] then [last w] else [])"
    and fne: "func \<noteq> []"
    by (auto simp: matchFnDocStringAt_def Let_def w_def r3_def nm_def split: if_splits list.splits)
  from assms r1 r2 obtain c r4 where t: "tl3 = c # r4"
    and d: "doc = takeWhile (\<lambda>c. c \<noteq> CHR 0x0A) (dropWhile rxSpace r4)"
    by (auto simp: matchFnDocStringAt_def Let_def w_def r3_def nm_def tl3_def
        split: if_splits list.splits)
  have c: "c = CHR '':''"
    using t hd_dropWhile[of "\<lambda>c. c \<noteq> CHR '':''" r3] by (auto simp: tl3_def)
  define ws3 where "ws3 = takeWhile rxSpace r4"
  define rest where "rest = dropWhile (\<lambda>c. c \<noteq> CHR 0x0A) (dropWhile rxSpace r4)"
  have r4eq: "r4 = ws3 @ doc @ rest"
    by (simp add: ws3_def d rest_def)
  have ws3sp: "\<forall>c\<in>set ws3. rxSpace c" unfolding ws3_def by (auto dest: set_takeWhileD)
  have docn: "CHR 0x0A \<notin> set doc" unfolding d by (auto dest: set_takeWhileD)
  have resth: "rest = [] \<or> hd rest = CHR 0x0A"
    using hd_dropWhile[of "\<lambda>c. c \<noteq> CHR 0x0A" "dropWhile rxSpace r4"] by (auto simp: rest_def)
  show ?thesis
  proof (cases "nm = []")
    case False
    with f have "func = nm" by simp
    with s1 r2eq r3eq t c r4eq have "s = ''//'' @ takeWhile rxSpace r1 @ ''fn'' @ w @ func @ '':'' @ ws3 @ doc @ rest"
      by simp
    with wsp ws1 ws3sp nmc \<open>func = nm\<close> fne docn resth show ?thesis
      by (intro exI[of _ "takeWhile rxSpace r1"] exI[of _ w] exI[of _ ws3] exI[of _ rest]) auto
  next
    case True
    with f fne have wne: "w \<noteq> []" and fl: "func = [last w]" by (auto split: if_splits)
    then have wb: "w = butlast w @ func" by simp
    have "rxSpace (last w)" using wne wsp by simp
    then have fc: "CHR '':'' \<notin> set func" using fl by (auto simp: rxSpace_def)
    have bsp: "\<forall>c\<in>set (butlast w). rxSpace c" using wsp by (auto dest: in_set_butlastD)
    from s1 r2eq r3eq True t c r4eq have "s = ''//'' @ takeWhile rxSpace r1 @ ''fn'' @ w @ '':'' @ ws3 @ doc @ rest"
      by simp
    then have "s = ''//'' @ takeWhile rxSpace r1 @ ''fn'' @ butlast w @ func @ '':'' @ ws3 @ doc @ rest"
      using wb by (metis append.assoc)
    with bsp ws1 ws3sp fc fne docn resth show ?thesis
      by (intro exI[of _ "takeWhile rxSpace r1"] exI[of _ "butlast w"] exI[of _ ws3] exI[of _ rest]) auto
  qed
qed

subsection \<open>The loops of \<^verbatim>\<open>getFnSignature\<close>\<close>

lemma argsLoop_eq:
  "argsLoop fnT names i args = args @ map (argEntry fnT names) [i..<NumIn fnT]"
proof (induction fnT names i args rule: argsLoop.induct)
  case (1 fnT names i args)
  show ?case
  proof (cases "i < NumIn fnT")
    case True
    then have "argsLoop fnT names i args
        = argsLoop fnT names (i + 1) (args @ [argEntry fnT names i])"
      by (subst argsLoop.simps) simp
    also have "\<dots> = (args @ [argEntry fnT names i])
        @ map (argEntry fnT names) [i + 1..<NumIn fnT]"
      using "1.IH"[OF True] .
    also have "\<dots> = args @ map (argEntry fnT names) [i..<NumIn fnT]"
      using True by (simp add: upt_conv_Cons)
    finally show ?thesis .
  next
    case False
    then show ?thesis by (subst argsLoop.simps) simp
  qed
qed

lemma outsLoop_eq:
  "outsLoop fnT i outs = outs @ map (\<lambda>k. typename (Out fnT ! k)) [i..<NumOut fnT]"
proof (induction fnT i outs rule: outsLoop.induct)
  case (1 fnT i outs)
  show ?case
  proof (cases "i < NumOut fnT")
    case True
    then have "outsLoop fnT i outs = outsLoop fnT (i + 1) (outs @ [typename (Out fnT ! i)])"
      by (subst outsLoop.simps) simp
    also have "\<dots> = (outs @ [typename (Out fnT ! i)])
        @ map (\<lambda>k. typename (Out fnT ! k)) [i + 1..<NumOut fnT]"
      using "1.IH"[OF True] .
    also have "\<dots> = outs @ map (\<lambda>k. typename (Out fnT ! k)) [i..<NumOut fnT]"
      using True by (simp add: upt_conv_Cons)
    finally show ?thesis .
  next
    case False
    then show ?thesis by (subst outsLoop.simps) simp
  qed
qed

lemma outsLoop_map: "outsLoop fnT 0 [] = map typename (Out fnT)"
proof -
  have "map (\<lambda>k. typename (Out fnT ! k)) [0..<length (Out fnT)]
      = map typename (map ((!) (Out fnT)) [0..<length (Out fnT)])"
    by simp
  then show ?thesis by (simp only: outsLoop_eq NumOut_def map_nth append_Nil)
qed

text \<open>
  The last entry of the signature of a variadic function: \<^verbatim>\<open>...\<close> and the type
  name of the last parameter, after the argument name when there is one. The last
  parameter of a variadic Go function is a slice, and the name of a slice type is empty.
\<close>

lemma getFnSignature_variadic:
  assumes "ResolveValue fn = FuncValue fnT" and "IsVariadic fnT" and "In fnT \<noteq> []"
  shows "getFnSignature fn names =
           Inr (Join (map (argEntry fnT names) [0..<NumIn fnT - 1]
                      @ [(if NumIn fnT - 1 < length names then names ! (NumIn fnT - 1) @ '' '' else [])
                         @ ''...'' @ typename (last (In fnT))]) '', '',
                Join (map typename (Out fnT)) '', '')
         \<and> (Type_Name (last (In fnT)) \<noteq> ''interface{}''
              \<longrightarrow> typename (last (In fnT)) = Type_Name (last (In fnT)))"
proof -
  from assms(3) have n: "0 < NumIn fnT" by (simp add: NumIn_def)
  then have upt: "[0..<NumIn fnT] = [0..<NumIn fnT - 1] @ [NumIn fnT - 1]"
    by (metis Suc_pred' upt_Suc_append zero_le)
  have l: "In fnT ! (NumIn fnT - 1) = last (In fnT)"
    using assms(3) by (simp add: NumIn_def last_conv_nth)
  have e: "argEntry fnT names (NumIn fnT - 1) =
      (if NumIn fnT - 1 < length names then names ! (NumIn fnT - 1) @ '' '' else [])
      @ ''...'' @ typename (last (In fnT))"
    using n assms(2) l by (simp add: argEntry_def)
  have "argsLoop fnT names 0 [] = map (argEntry fnT names) [0..<NumIn fnT - 1]
      @ [argEntry fnT names (NumIn fnT - 1)]"
    by (subst argsLoop_eq, subst upt) simp
  with e assms(1) show ?thesis
    by (simp add: getFnSignature_def outsLoop_map typename_def)
qed

lemma getFnSignature_variadic_slice:
  assumes "ResolveValue fn = FuncValue fnT" and "IsVariadic fnT" and "In fnT \<noteq> []"
    and "last (In fnT) = SliceOf t"
  shows "getFnSignature fn names =
           Inr (Join (map (argEntry fnT names) [0..<NumIn fnT - 1]
                      @ [(if NumIn fnT - 1 < length names then names ! (NumIn fnT - 1) @ '' '' else [])
                         @ ''...'']) '', '',
                Join (map typename (Out fnT)) '', '')"
  using getFnSignature_variadic[OF assms(1-3), of names] assms(4)
  by (simp add: typename_def)

subsection \<open>The loops of \<^verbatim>\<open>GenerateFunctionDocs\<close>, and the strings\<close>

lemma commentLoop_append:
  "commentLoop funcs (pre @ rest) doc out =
     (case commentLoop funcs pre doc out of
        (Some d, out') \<Rightarrow> commentLoop funcs rest d out'
      | (None, out') \<Rightarrow> (None, out'))"
  by (induction funcs pre doc out rule: commentLoop.induct)
     (simp_all split: option.splits sum.splits prod.splits)

lemma commentLoop_out: "commentLoop funcs grp doc out = (Some d, out') \<Longrightarrow> out' = out"
  by (induction funcs grp doc out rule: commentLoop.induct)
     (simp_all split: option.splits sum.splits prod.splits if_splits)

lemma commentLoop_fst: "fst (commentLoop funcs grp doc out) = fst (commentLoop funcs grp doc out')"
  by (induction funcs grp doc out rule: commentLoop.induct)
     (simp_all split: option.splits sum.splits prod.splits)

lemma groupLoop_docs:
  "fst (groupLoop funcs groups docs out) = docs @ concat (map (recordsOfGroup funcs) groups)"
proof (induction groups arbitrary: docs out)
  case Nil
  show ?case by simp
next
  case (Cons grp groups)
  obtain r out' where c: "commentLoop funcs grp newDoc out = (r, out')"
    by (cases "commentLoop funcs grp newDoc out")
  have r: "fst (commentLoop funcs grp newDoc []) = r"
    using c commentLoop_fst[of funcs grp newDoc "[]" out] by simp
  show ?case
  proof (cases r)
    case None
    with c r Cons.IH[of docs out'] show ?thesis by (simp add: recordsOfGroup_def)
  next
    case (Some d)
    with c r Cons.IH[of "docs @ [d]" out'] show ?thesis by (simp add: recordsOfGroup_def)
  qed
qed

lemma GenerateFunctionDocs_docs:
  "fst (GenerateFunctionDocs funcs (groups, None) out)
     = Some (concat (map (recordsOfGroup funcs) groups))"
proof -
  obtain docs out' where g: "groupLoop funcs groups [] out = (docs, out')"
    by (cases "groupLoop funcs groups [] out")
  with groupLoop_docs[of funcs groups "[]" out] show ?thesis
    by (simp add: GenerateFunctionDocs_def)
qed

lemma GenerateFunctionDocs_err:
  "fst (snd (GenerateFunctionDocs funcs (groups, perr) out)) = perr"
  by (cases perr) (simp_all add: GenerateFunctionDocs_def split: prod.splits)

lemma getFnSignature_Inl:
  "(\<exists>e. getFnSignature fn names = Inl e) \<longleftrightarrow> \<not> IsKind_Func (ResolveValue fn)"
  by (cases "ResolveValue fn") (simp_all add: getFnSignature_def)




lemma commentLoop_failure:
  assumes "fst (commentLoop funcs pre newDoc []) \<noteq> None"
    and "Match_rxFnDocString text = Some (fnname, docstring)"
    and "funcs fnname = Some fn" and "docstring \<noteq> []"
    and "\<not> IsKind_Func (ResolveValue fn)"
  shows "fst (commentLoop funcs (pre @ text # post) newDoc out) = None"
proof -
  from assms(1) have "fst (commentLoop funcs pre newDoc out) \<noteq> None"
    using commentLoop_fst[of funcs pre newDoc out "[]"] by simp
  then obtain d out' where p: "commentLoop funcs pre newDoc out = (Some d, out')"
    by (cases "commentLoop funcs pre newDoc out") auto
  from assms(5) obtain e where "getFnSignature fn (AllCaptures docstring) = Inl e"
    using getFnSignature_Inl by blast
  with assms(2-4) have "fst (commentLoop funcs (text # post) d out') = None" by simp
  with p show ?thesis by (simp add: commentLoop_append)
qed



lemma commentLoop_accept:
  assumes "fst (commentLoop funcs pre newDoc []) \<noteq> None"
    and "Match_rxFnDocString text = Some (fnname, docstring)"
    and "funcs fnname = Some fn" and "docstring \<noteq> []"
    and "getFnSignature fn (AllCaptures docstring) = Inr (signature, outputs)"
  shows "commentLoop funcs (pre @ text # rest) newDoc out
         = commentLoop funcs rest
             \<lparr>Name = fnname, DocString = docstring, Signature = signature, Returns = outputs\<rparr> out"
proof -
  from assms(1) have "fst (commentLoop funcs pre newDoc out) \<noteq> None"
    using commentLoop_fst[of funcs pre newDoc out "[]"] by simp
  then obtain d out' where p: "commentLoop funcs pre newDoc out = (Some d, out')"
    by (cases "commentLoop funcs pre newDoc out") auto
  then have o: "out' = out" by (rule commentLoop_out)
  have eq: "d\<lparr>Name := fnname, DocString := docstring, Signature := signature, Returns := outputs\<rparr>
      = \<lparr>Name = fnname, DocString = docstring, Signature = signature, Returns = outputs\<rparr>"
    by simp
  from assms(2-5) have "commentLoop funcs (text # rest) d out
      = commentLoop funcs rest
          (d\<lparr>Name := fnname, DocString := docstring, Signature := signature, Returns := outputs\<rparr>) out"
    by simp
  then have "commentLoop funcs (text # rest) d out
      = commentLoop funcs rest
          \<lparr>Name = fnname, DocString = docstring, Signature = signature, Returns = outputs\<rparr> out"
    by (simp only: eq)
  with p o show ?thesis by (simp add: commentLoop_append)
qed

text \<open>
  A record that a group yields is either still empty, or has a registered name and a
  docstring that is not empty.
\<close>

lemma commentLoop_record:
  assumes "commentLoop funcs grp doc out = (Some d, out')"
    and "doc = newDoc \<or> Name doc \<in> dom funcs \<and> DocString doc \<noteq> []"
  shows "d = newDoc \<or> Name d \<in> dom funcs \<and> DocString d \<noteq> []"
  using assms
proof (induction grp arbitrary: doc out)
  case Nil
  then show ?case by simp
next
  case (Cons line rest)
  show ?case
  proof (cases "Match_rxFnDocString line")
    case None
    show ?thesis
    proof (cases "Name doc = []")
      case True
      with None Cons.prems(1) show ?thesis by simp
    next
      case False
      let ?doc' = "doc\<lparr>DocString := DocString doc @ '' '' @ TrimSpace (TrimPrefix line ''//'')\<rparr>"
      from None False Cons.prems(1) have "commentLoop funcs rest ?doc' out = (Some d, out')"
        by simp
      moreover from False Cons.prems(2)
      have "?doc' = newDoc \<or> Name ?doc' \<in> dom funcs \<and> DocString ?doc' \<noteq> []"
        by (auto simp: newDoc_def)
      ultimately show ?thesis by (rule Cons.IH)
    qed
  next
    case (Some m)
    obtain fnname docstring where m: "m = (fnname, docstring)" by (cases m)
    show ?thesis
    proof (cases "funcs fnname")
      case None
      with Some m Cons.prems(1) have "commentLoop funcs rest doc out = (Some d, out')" by simp
      then show ?thesis using Cons.prems(2) by (rule Cons.IH)
    next
      case fn: (Some fn)
      show ?thesis
      proof (cases "docstring = []")
        case True
        with Some m fn Cons.prems(1) have "commentLoop funcs rest doc out = (Some d, out')"
          by simp
        then show ?thesis using Cons.prems(2) by (rule Cons.IH)
      next
        case False
        show ?thesis
        proof (cases "getFnSignature fn (AllCaptures docstring)")
          case (Inl e)
          with Some m fn False Cons.prems(1) show ?thesis by simp
        next
          case (Inr p)
          obtain signature outputs where p: "p = (signature, outputs)" by (cases p)
          let ?doc' = "doc\<lparr>Name := fnname, DocString := docstring,
                             Signature := signature, Returns := outputs\<rparr>"
          from Some m fn False Inr p Cons.prems(1)
          have "commentLoop funcs rest ?doc' out = (Some d, out')" by simp
          moreover from fn False
          have "?doc' = newDoc \<or> Name ?doc' \<in> dom funcs \<and> DocString ?doc' \<noteq> []"
            by auto
          ultimately show ?thesis by (rule Cons.IH)
        qed
      qed
    qed
  qed
qed

lemma recordsOfGroup_record:
  "d \<in> set (recordsOfGroup funcs grp) \<Longrightarrow>
     d = newDoc \<or> Name d \<in> dom funcs \<and> DocString d \<noteq> []"
proof -
  assume "d \<in> set (recordsOfGroup funcs grp)"
  then have "fst (commentLoop funcs grp newDoc []) = Some d"
    by (auto simp: recordsOfGroup_def split: option.splits)
  then obtain out' where "commentLoop funcs grp newDoc [] = (Some d, out')"
    by (cases "commentLoop funcs grp newDoc []") auto
  then show ?thesis by (rule commentLoop_record) simp
qed

subsection \<open>Scenario A: one annotated function\<close>

text \<open>
  Claim C3, as the program behaves. With the registry that maps \<^verbatim>\<open>Add\<close> to a
  function of two \<^verbatim>\<open>int\<close> parameters and one \<^verbatim>\<open>int\<close> result, and a
  file whose only comment is \<^verbatim>\<open>// fn Add: adds *a* and *b* together.\<close>, the
  program prints the line \<^verbatim>\<open>Add(a int, b int) int\<close>, then the docstring as it
  stands in the comment, the stars around \<^verbatim>\<open>a\<close> and \<^verbatim>\<open>b\<close> kept, then an
  empty line.
\<close>

theorem scenarioA_output:
  "main [''Add'' \<mapsto> FuncValue \<lparr>In = [Defined ''int'', Defined ''int''],
                                    IsVariadic = False, Out = [Defined ''int'']\<rparr>]
        ([[''// fn Add: adds *a* and *b* together.'']], None)
   = ''Add(a int, b int) int'' @ newline @ ''adds *a* and *b* together.'' @ newline @ newline"
  by (simp add: funcdoc_eval)

text \<open>
  Claim C3, as stated: the second line would be the docstring without the stars. The
  output of the program is another text.
\<close>

theorem scenarioA_counterexample:
  "main [''Add'' \<mapsto> FuncValue \<lparr>In = [Defined ''int'', Defined ''int''],
                                    IsVariadic = False, Out = [Defined ''int'']\<rparr>]
        ([[''// fn Add: adds *a* and *b* together.'']], None)
   \<noteq> ''Add(a int, b int) int'' @ newline @ ''adds a and b together.'' @ newline @ newline"
  by (simp add: funcdoc_eval)

subsection \<open>Groups that name no registered function\<close>

text \<open>
  Claim C1 says that a group yields a record only when one of its lines was accepted,
  and that the single line \<^verbatim>\<open>// fn Multiply: multiplies *a* and *b*.\<close> yields
  none when \<^verbatim>\<open>Multiply\<close> is not registered. The program evaluated on that
  input: the line matches the pattern, the name is unknown, the loop over the group
  ends without \<^verbatim>\<open>continue NextComment\<close>, and the record, still empty, is
  appended.
\<close>

theorem unregistered_annotation_emits_record:
  "GenerateFunctionDocs
     [''Add'' \<mapsto> FuncValue \<lparr>In = [Defined ''int'', Defined ''int''],
                                IsVariadic = False, Out = [Defined ''int'']\<rparr>]
     ([[''// fn Multiply: multiplies *a* and *b*.'']], None) []
   = (Some [\<lparr>Name = [], DocString = [], Signature = [], Returns = []\<rparr>], None, [])"
  by (simp add: funcdoc_eval)

text \<open>
  Claim C2 says that every record has a registered name and a docstring that is not
  empty. The program evaluated on a file of two groups, the second the single line
  \<^verbatim>\<open>// fn Add:\<close> with an empty docstring: the second record has the empty
  name and the empty docstring.
\<close>

theorem empty_docstring_emits_record:
  "fst (GenerateFunctionDocs
     [''Add'' \<mapsto> FuncValue \<lparr>In = [Defined ''int'', Defined ''int''],
                                IsVariadic = False, Out = [Defined ''int'']\<rparr>]
     ([[''// fn Add: adds *a* and *b* together.''], [''// fn Add:'']], None) [])
   = Some [\<lparr>Name = ''Add'', DocString = ''adds *a* and *b* together.'',
             Signature = ''a int, b int'', Returns = ''int''\<rparr>,
           \<lparr>Name = [], DocString = [], Signature = [], Returns = []\<rparr>]
   \<and> Name \<lparr>Name = [], DocString = [], Signature = [], Returns = []\<rparr>
       \<notin> dom [''Add'' \<mapsto> FuncValue \<lparr>In = [Defined ''int'', Defined ''int''],
                                         IsVariadic = False, Out = [Defined ''int'']\<rparr>]
   \<and> DocString \<lparr>Name = [], DocString = [], Signature = [], Returns = []\<rparr> = []"
  by (simp add: funcdoc_eval)

subsection \<open>The empty interface\<close>

text \<open>
  Claim C5 says that a parameter or a result of the type \<^verbatim>\<open>interface{}\<close> is
  rendered as \<^verbatim>\<open>any\<close>. The program compares the name that
  \<^verbatim>\<open>reflect\<close> gives with \<^verbatim>\<open>interface{}\<close>, and that name is empty
  for the empty interface: for a function of one such parameter and one such result,
  with the argument name \<^verbatim>\<open>v\<close>, the signature is \<^verbatim>\<open>v\<close> followed by a
  space, and the return text is empty.
\<close>

theorem empty_interface_rendered_empty:
  "getFnSignature
     (FuncValue \<lparr>In = [EmptyInterface], IsVariadic = False, Out = [EmptyInterface]\<rparr>) [''v'']
   = Inr (''v '', [])"
  by (simp add: funcdoc_eval)

subsection \<open>Scenario C: a docstring of two lines\<close>

text \<open>
  Claim C6, as the program behaves. With \<^verbatim>\<open>Echo\<close> registered as a function from
  a string to a string, the group of the two lines
  \<^verbatim>\<open>// fn Echo: returns *msg* unchanged.\<close> and \<^verbatim>\<open>// Useful for testing.\<close>
  gives the docstring \<^verbatim>\<open>returns *msg* unchanged. Useful for testing.\<close>, the
  stars kept. In general a line that does not match the pattern, met when the name of
  the record is set, appends a space and the text of the line, without a leading
  \<^verbatim>\<open>//\<close> and trimmed, to the docstring.
\<close>

theorem scenarioC_docstring:
  "map_option (map DocString) (fst (GenerateFunctionDocs
     [''Echo'' \<mapsto> FuncValue \<lparr>In = [Defined ''string''], IsVariadic = False,
                                 Out = [Defined ''string'']\<rparr>]
     ([[''// fn Echo: returns *msg* unchanged.'', ''// Useful for testing.'']], None) []))
   = Some [''returns *msg* unchanged. Useful for testing.'']
   \<and> (Match_rxFnDocString text = None \<longrightarrow> Name doc \<noteq> [] \<longrightarrow>
        commentLoop funcs (text # rest) doc out
        = commentLoop funcs rest
            (doc\<lparr>DocString := DocString doc @ '' '' @ TrimSpace (TrimPrefix text ''//'')\<rparr>) out)"
proof
  show "map_option (map DocString) (fst (GenerateFunctionDocs
     [''Echo'' \<mapsto> FuncValue \<lparr>In = [Defined ''string''], IsVariadic = False,
                                 Out = [Defined ''string'']\<rparr>]
     ([[''// fn Echo: returns *msg* unchanged.'', ''// Useful for testing.'']], None) []))
   = Some [''returns *msg* unchanged. Useful for testing.'']"
    by (simp add: funcdoc_eval)
next
  show "Match_rxFnDocString text = None \<longrightarrow> Name doc \<noteq> [] \<longrightarrow>
        commentLoop funcs (text # rest) doc out
        = commentLoop funcs rest
            (doc\<lparr>DocString := DocString doc @ '' '' @ TrimSpace (TrimPrefix text ''//'')\<rparr>) out"
    by simp
qed

theorem scenarioC_docstring_witness:
  "Match_rxFnDocString ''// Useful for testing.'' = None
   \<and> Name \<lparr>Name = ''Echo'', DocString = ''returns *msg* unchanged.'',
            Signature = ''msg string'', Returns = ''string''\<rparr> \<noteq> []
   \<and> commentLoop Map.empty [''// Useful for testing.'']
        \<lparr>Name = ''Echo'', DocString = ''returns *msg* unchanged.'',
         Signature = ''msg string'', Returns = ''string''\<rparr> []
      = (Some \<lparr>Name = ''Echo'', DocString = ''returns *msg* unchanged. Useful for testing.'',
               Signature = ''msg string'', Returns = ''string''\<rparr>, [])"
  using scenarioC_docstring [of "''// Useful for testing.''"
      "\<lparr>Name = ''Echo'', DocString = ''returns *msg* unchanged.'',
        Signature = ''msg string'', Returns = ''string''\<rparr>"
      Map.empty "[]" "[]"]
  by (simp add: funcdoc_eval)

text \<open>
  Claim C6, as stated: the docstring would be the text without the stars. The program
  gives another docstring.
\<close>

theorem scenarioC_counterexample:
  "map_option (map DocString) (fst (GenerateFunctionDocs
     [''Echo'' \<mapsto> FuncValue \<lparr>In = [Defined ''string''], IsVariadic = False,
                                 Out = [Defined ''string'']\<rparr>]
     ([[''// fn Echo: returns *msg* unchanged.'', ''// Useful for testing.'']], None) []))
   \<noteq> Some [''returns msg unchanged. Useful for testing.'']"
  by (simp add: funcdoc_eval)

subsection \<open>Variadic functions\<close>

text \<open>
  Claim C4 says that the last parameter of a variadic function is rendered as
  \<^verbatim>\<open>...T\<close>, with or without an argument name. The program puts
  \<^verbatim>\<open>...\<close> before the name that \<^verbatim>\<open>reflect\<close> gives for the type of the
  parameter, and that type is the slice \<^verbatim>\<open>[]T\<close>, whose name is empty: for
  \<^verbatim>\<open>func(sep string, parts ...string) string\<close> the last entry is
  \<^verbatim>\<open>parts ...\<close> with the two argument names and \<^verbatim>\<open>...\<close> with the first
  only, the type \<^verbatim>\<open>string\<close> in neither.
\<close>

theorem variadic_rendered_without_type:
  "getFnSignature
     (FuncValue \<lparr>In = [Defined ''string'', SliceOf (Defined ''string'')], IsVariadic = True,
                 Out = [Defined ''string'']\<rparr>) [''sep'', ''parts'']
   = Inr (''sep string, parts ...'', ''string'')
   \<and> getFnSignature
     (FuncValue \<lparr>In = [Defined ''string'', SliceOf (Defined ''string'')], IsVariadic = True,
                 Out = [Defined ''string'']\<rparr>) [''sep'']
   = Inr (''sep string, ...'', ''string'')"
  by (simp add: funcdoc_eval)

subsection \<open>Errors\<close>

text \<open>
  Claim C8. \<^verbatim>\<open>GenerateFunctionDocs\<close> returns the error of the parser, whatever it
  is: when the parser fails, the slice of records is nil and nothing is printed; when it
  succeeds, the error is nil and the slice is not.
\<close>

theorem parse_error_is_fatal:
  assumes "GenerateFunctionDocs funcs (groups, perr) out = (docs, err, out')"
  shows "err = perr \<and> (perr \<noteq> None \<longrightarrow> docs = None \<and> out' = out)
         \<and> (perr = None \<longrightarrow> docs \<noteq> None)"
  using assms by (cases perr) (auto simp: GenerateFunctionDocs_def split: prod.splits)

theorem parse_error_is_fatal_witness:
  "GenerateFunctionDocs Map.empty ([[''// fn Add: adds.'']], Some (Errorf ''functions.go:1:1: expected package'')) []
     = (None, Some (Errorf ''functions.go:1:1: expected package''), [])
   \<and> GenerateFunctionDocs Map.empty ([[''// a comment'']], None) [] = (Some [], None, [])"
proof -
  have a: "GenerateFunctionDocs Map.empty ([[''// fn Add: adds.'']], Some (Errorf ''functions.go:1:1: expected package'')) []
     = (None, Some (Errorf ''functions.go:1:1: expected package''), [])"
    by (simp add: GenerateFunctionDocs_def)
  have b: "GenerateFunctionDocs Map.empty ([[''// a comment'']], None) [] = (Some [], None, [])"
    by (simp add: funcdoc_eval)
  from parse_error_is_fatal[OF a] parse_error_is_fatal[OF b] a b show ?thesis by simp
qed

text \<open>
  Claim C7. \<^verbatim>\<open>getFnSignature\<close> fails exactly when the resolved value is not of
  kind \<^verbatim>\<open>Func\<close>. When a group reaches, without being left before, a line that
  matches the pattern and names a registered value that is not a function, with a
  docstring that is not empty, the group is left and yields no record; the records of
  the file are those of the file without that group, and the error returned is nil.
\<close>

theorem signature_failure_is_local:
  "((\<exists>e. getFnSignature v names = Inl e) \<longleftrightarrow> \<not> IsKind_Func (ResolveValue v))
   \<and> (fst (commentLoop funcs pre newDoc []) \<noteq> None \<longrightarrow>
        Match_rxFnDocString text = Some (fnname, docstring) \<longrightarrow>
        funcs fnname = Some fn \<longrightarrow> docstring \<noteq> [] \<longrightarrow>
        \<not> IsKind_Func (ResolveValue fn) \<longrightarrow>
          fst (commentLoop funcs (pre @ text # post) newDoc out) = None
          \<and> fst (GenerateFunctionDocs funcs (before @ (pre @ text # post) # after, None) out)
              = fst (GenerateFunctionDocs funcs (before @ after, None) out)
          \<and> fst (snd (GenerateFunctionDocs funcs (before @ (pre @ text # post) # after, None) out))
              = None)"
proof (intro conjI impI)
  show "(\<exists>e. getFnSignature v names = Inl e) \<longleftrightarrow> \<not> IsKind_Func (ResolveValue v)"
    by (rule getFnSignature_Inl)
next
  assume a: "fst (commentLoop funcs pre newDoc []) \<noteq> None"
    "Match_rxFnDocString text = Some (fnname, docstring)"
    "funcs fnname = Some fn" "docstring \<noteq> []" "\<not> IsKind_Func (ResolveValue fn)"
  show "fst (commentLoop funcs (pre @ text # post) newDoc out) = None"
    using a by (rule commentLoop_failure)
  have "recordsOfGroup funcs (pre @ text # post) = []"
    using commentLoop_failure[OF a, of post "[]"] by (simp add: recordsOfGroup_def)
  then show "fst (GenerateFunctionDocs funcs (before @ (pre @ text # post) # after, None) out)
      = fst (GenerateFunctionDocs funcs (before @ after, None) out)"
    by (simp add: GenerateFunctionDocs_docs)
  show "fst (snd (GenerateFunctionDocs funcs (before @ (pre @ text # post) # after, None) out)) = None"
    by (rule GenerateFunctionDocs_err)
qed

theorem signature_failure_is_local_witness:
  "(\<exists>e. getFnSignature (OtherValue (Defined ''string'')) [] = Inl e)
   \<and> GenerateFunctionDocs
        [''Add'' \<mapsto> FuncValue \<lparr>In = [Defined ''int'', Defined ''int''], IsVariadic = False,
                                   Out = [Defined ''int'']\<rparr>,
         ''Version'' \<mapsto> OtherValue (Defined ''string'')]
        ([[''// fn Add: adds *a* and *b*.''],
          [''// fn Add: adds.'', ''// fn Version: the version.'', ''// fn Add: adds again.''],
          [''// fn Add: sums *x* and *y*.'']], None) []
      = (Some [\<lparr>Name = ''Add'', DocString = ''adds *a* and *b*.'', Signature = ''a int, b int'',
                 Returns = ''int''\<rparr>,
               \<lparr>Name = ''Add'', DocString = ''sums *x* and *y*.'', Signature = ''x int, y int'',
                 Returns = ''int''\<rparr>],
         None,
         ''signature failed: must provide a function to get a signature'' @ newline)"
proof -
  let ?funcs = "[''Add'' \<mapsto> FuncValue \<lparr>In = [Defined ''int'', Defined ''int''], IsVariadic = False,
                                   Out = [Defined ''int'']\<rparr>,
         ''Version'' \<mapsto> OtherValue (Defined ''string'')]"
  have h1: "fst (commentLoop ?funcs [''// fn Add: adds.''] newDoc []) \<noteq> None"
    by (simp add: funcdoc_eval)
  have h2: "Match_rxFnDocString ''// fn Version: the version.'' = Some (''Version'', ''the version.'')"
    by (simp add: funcdoc_eval)
  have h3: "?funcs ''Version'' = Some (OtherValue (Defined ''string''))" by simp
  have h4: "''the version.'' \<noteq> []" by simp
  have h5: "\<not> IsKind_Func (ResolveValue (OtherValue (Defined ''string'')))" by simp
  have g: "GenerateFunctionDocs ?funcs
        ([[''// fn Add: adds *a* and *b*.''], [''// fn Add: sums *x* and *y*.'']], None) []
      = (Some [\<lparr>Name = ''Add'', DocString = ''adds *a* and *b*.'', Signature = ''a int, b int'',
                 Returns = ''int''\<rparr>,
               \<lparr>Name = ''Add'', DocString = ''sums *x* and *y*.'', Signature = ''x int, y int'',
                 Returns = ''int''\<rparr>], None, [])"
    by (simp add: funcdoc_eval)
  have o: "snd (snd (GenerateFunctionDocs ?funcs
        ([[''// fn Add: adds *a* and *b*.''],
          [''// fn Add: adds.'', ''// fn Version: the version.'', ''// fn Add: adds again.''],
          [''// fn Add: sums *x* and *y*.'']], None) []))
      = ''signature failed: must provide a function to get a signature'' @ newline"
    by (simp add: funcdoc_eval)
  note t = signature_failure_is_local [of "OtherValue (Defined ''string'')" "[]" ?funcs
      "[''// fn Add: adds.'']" "''// fn Version: the version.''" "''Version''" "''the version.''"
      "OtherValue (Defined ''string'')" "[''// fn Add: adds again.'']" "[]"
      "[[''// fn Add: adds *a* and *b*.'']]" "[[''// fn Add: sums *x* and *y*.'']]"]
  from t h5 have e: "\<exists>e. getFnSignature (OtherValue (Defined ''string'')) [] = Inl e" by blast
  from t h1 h2 h3 h4 h5 have
    "fst (GenerateFunctionDocs ?funcs
        ([[''// fn Add: adds *a* and *b*.'']] @ ([''// fn Add: adds.''] @ ''// fn Version: the version.'' # [''// fn Add: adds again.'']) # [[''// fn Add: sums *x* and *y*.'']], None) [])
      = fst (GenerateFunctionDocs ?funcs ([[''// fn Add: adds *a* and *b*.'']] @ [[''// fn Add: sums *x* and *y*.'']], None) [])
     \<and> fst (snd (GenerateFunctionDocs ?funcs
        ([[''// fn Add: adds *a* and *b*.'']] @ ([''// fn Add: adds.''] @ ''// fn Version: the version.'' # [''// fn Add: adds again.'']) # [[''// fn Add: sums *x* and *y*.'']], None) [])) = None"
    by blast
  with g o e show ?thesis
    by (simp add: prod_eq_iff)
qed

subsection \<open>The printed block\<close>




subsection \<open>Several annotations in one group\<close>

text \<open>
  Claim C10. The records of a file are the records of its groups, in order, and a group
  yields at most one. When a group reaches, without being left before, a line that is
  accepted (it matches the pattern, names a registered function, has a docstring that is
  not empty, and the signature is rendered), the record becomes the one of that line,
  whatever it held, and the rest of the group goes on from it.
\<close>

theorem last_annotation_wins:
  "fst (GenerateFunctionDocs funcs (groups, None) out)
     = Some (concat (map (recordsOfGroup funcs) groups))
   \<and> length (recordsOfGroup funcs grp) \<le> 1
   \<and> (fst (commentLoop funcs pre newDoc []) \<noteq> None \<longrightarrow>
        Match_rxFnDocString line = Some (fnname, docstring) \<longrightarrow>
        funcs fnname = Some fn \<longrightarrow> docstring \<noteq> [] \<longrightarrow>
        getFnSignature fn (AllCaptures docstring) = Inr (signature, outputs) \<longrightarrow>
          commentLoop funcs (pre @ line # rest) newDoc out
          = commentLoop funcs rest
              \<lparr>Name = fnname, DocString = docstring, Signature = signature, Returns = outputs\<rparr>
              out)"
proof (intro conjI impI)
  show "fst (GenerateFunctionDocs funcs (groups, None) out)
     = Some (concat (map (recordsOfGroup funcs) groups))"
    by (rule GenerateFunctionDocs_docs)
  show "length (recordsOfGroup funcs grp) \<le> 1"
    by (simp add: recordsOfGroup_def split: option.splits)
next
  assume "fst (commentLoop funcs pre newDoc []) \<noteq> None"
    "Match_rxFnDocString line = Some (fnname, docstring)"
    "funcs fnname = Some fn" "docstring \<noteq> []"
    "getFnSignature fn (AllCaptures docstring) = Inr (signature, outputs)"
  then show "commentLoop funcs (pre @ line # rest) newDoc out
          = commentLoop funcs rest
              \<lparr>Name = fnname, DocString = docstring, Signature = signature, Returns = outputs\<rparr>
              out"
    by (rule commentLoop_accept)
qed

theorem last_annotation_wins_witness:
  "commentLoop
     [''Add'' \<mapsto> FuncValue \<lparr>In = [Defined ''int'', Defined ''int''], IsVariadic = False,
                                Out = [Defined ''int'']\<rparr>,
      ''Neg'' \<mapsto> FuncValue \<lparr>In = [Defined ''int''], IsVariadic = False,
                                Out = [Defined ''int'']\<rparr>]
     [''// fn Add: adds *a* and *b*.'', ''// It is commutative.'',
      ''// fn Neg: negates *x*.'', ''// Twice gives x.'']
     newDoc []
   = (Some \<lparr>Name = ''Neg'', DocString = ''negates *x*. Twice gives x.'',
            Signature = ''x int'', Returns = ''int''\<rparr>, [])"
proof -
  let ?funcs = "[''Add'' \<mapsto> FuncValue \<lparr>In = [Defined ''int'', Defined ''int''], IsVariadic = False,
                                Out = [Defined ''int'']\<rparr>,
      ''Neg'' \<mapsto> FuncValue \<lparr>In = [Defined ''int''], IsVariadic = False,
                                Out = [Defined ''int'']\<rparr>]"
  have h1: "fst (commentLoop ?funcs [''// fn Add: adds *a* and *b*.'', ''// It is commutative.'']
      newDoc []) \<noteq> None"
    by (simp add: funcdoc_eval)
  have h2: "Match_rxFnDocString ''// fn Neg: negates *x*.'' = Some (''Neg'', ''negates *x*.'')"
    by (simp add: funcdoc_eval)
  have h3: "?funcs ''Neg'' = Some (FuncValue \<lparr>In = [Defined ''int''], IsVariadic = False,
                                Out = [Defined ''int'']\<rparr>)"
    by simp
  have h4: "''negates *x*.'' \<noteq> []" by simp
  have h5: "getFnSignature (FuncValue \<lparr>In = [Defined ''int''], IsVariadic = False,
                                Out = [Defined ''int'']\<rparr>) (AllCaptures ''negates *x*.'')
      = Inr (''x int'', ''int'')"
    by (simp add: funcdoc_eval)
  from last_annotation_wins [where funcs = "?funcs"
      and pre = "[''// fn Add: adds *a* and *b*.'', ''// It is commutative.'']"
      and line = "''// fn Neg: negates *x*.''" and fnname = "''Neg''"
      and docstring = "''negates *x*.''" and signature = "''x int''" and outputs = "''int''"
      and rest = "[''// Twice gives x.'']" and out = "[]"]
    h1 h2 h3 h4 h5
  have "commentLoop ?funcs
      ([''// fn Add: adds *a* and *b*.'', ''// It is commutative.'']
        @ ''// fn Neg: negates *x*.'' # [''// Twice gives x.'']) newDoc []
    = commentLoop ?funcs [''// Twice gives x.'']
        \<lparr>Name = ''Neg'', DocString = ''negates *x*.'', Signature = ''x int'', Returns = ''int''\<rparr> []"
    by blast
  moreover have "commentLoop ?funcs [''// Twice gives x.'']
        \<lparr>Name = ''Neg'', DocString = ''negates *x*.'', Signature = ''x int'', Returns = ''int''\<rparr> []
     = (Some \<lparr>Name = ''Neg'', DocString = ''negates *x*. Twice gives x.'',
            Signature = ''x int'', Returns = ''int''\<rparr>, [])"
    by (simp add: funcdoc_eval)
  ultimately show ?thesis by simp
qed

end
